theory Spec2Isabelle
  imports Main "HOL-Library.AList"
begin

section \<open>JavaScript values\<close>

text \<open>
  The strategy is duck-typed JavaScript: every value it touches (request fields, tokens,
  transport errors, response bodies, parsed JSON, profiles, the arguments of the
  continuations) is an arbitrary JavaScript value. An object is the list of its own
  properties in insertion order, where the first binding of a name is the effective one;
  an array carries its elements and its own non-index properties. Numbers are integers here
  (fractions and NaN are not represented).
\<close>

datatype jsval =
    JUndefined
  | JNull
  | JBool bool
  | JNum int
  | JStr string
  | JArr "jsval list" "(string \<times> jsval) list"
  | JObj "(string \<times> jsval) list"

text \<open>ToBoolean, as used by \<^verbatim>\<open>if (x)\<close>, \<^verbatim>\<open>!x\<close>, \<^verbatim>\<open>&&\<close> and \<^verbatim>\<open>||\<close>.\<close>

fun truthy :: "jsval \<Rightarrow> bool" where
  "truthy JUndefined = False"
| "truthy JNull = False"
| "truthy (JBool b) = b"
| "truthy (JNum n) = (n \<noteq> 0)"
| "truthy (JStr s) = (s \<noteq> [])"
| "truthy (JArr es ps) = True"
| "truthy (JObj ps) = True"

text \<open>
  The exception raised by a property access on \<^verbatim>\<open>null\<close> or \<^verbatim>\<open>undefined\<close>.
  Its message text is engine-specific and left out.
\<close>

definition TypeError :: jsval where
  "TypeError = JObj [(''name'', JStr ''TypeError'')]"

text \<open>
  \<^verbatim>\<open>new InternalOAuthError(message, err)\<close> of passport-oauth: the constructor sets
  \<^verbatim>\<open>name\<close>, \<^verbatim>\<open>message\<close> and \<^verbatim>\<open>oauthError\<close> on the new object.
\<close>

definition InternalOAuthError :: "jsval \<Rightarrow> jsval \<Rightarrow> jsval" where
  "InternalOAuthError message err =
     JObj [(''name'', JStr ''InternalOAuthError''), (''message'', message), (''oauthError'', err)]"

text \<open>
  An expression either yields a value (\<open>Inr\<close>) or throws one (\<open>Inl\<close>).
\<close>

type_synonym jsres = "jsval + jsval"

text \<open>
  \<^verbatim>\<open>o.k\<close> for the property names the strategy reads (none of them is an array index or
  lives on a built-in prototype): a \<^verbatim>\<open>TypeError\<close> on \<^verbatim>\<open>null\<close> and
  \<^verbatim>\<open>undefined\<close>, the own property of an object or array when it has one, and
  \<^verbatim>\<open>undefined\<close> otherwise, also on booleans, numbers and strings.
\<close>

definition lookup :: "(string \<times> jsval) list \<Rightarrow> string \<Rightarrow> jsval" where
  "lookup ps k = (case map_of ps k of Some v \<Rightarrow> v | None \<Rightarrow> JUndefined)"

fun get_prop :: "jsval \<Rightarrow> string \<Rightarrow> jsres" where
  "get_prop JUndefined k = Inl TypeError"
| "get_prop JNull k = Inl TypeError"
| "get_prop (JObj ps) k = Inr (lookup ps k)"
| "get_prop (JArr es ps) k = Inr (lookup ps k)"
| "get_prop (JBool b) k = Inr JUndefined"
| "get_prop (JNum n) k = Inr JUndefined"
| "get_prop (JStr s) k = Inr JUndefined"

text \<open>
  \<^verbatim>\<open>o[k] = v\<close> in sloppy mode (the files carry no \<^verbatim>\<open>'use strict'\<close>): an existing
  property keeps its place, a new one is appended, an assignment to a primitive is silently
  dropped. The expression's result is the object after the assignment.
\<close>

fun set_prop :: "jsval \<Rightarrow> string \<Rightarrow> jsval \<Rightarrow> jsres" where
  "set_prop JUndefined k v = Inl TypeError"
| "set_prop JNull k v = Inl TypeError"
| "set_prop (JObj ps) k v = Inr (JObj (AList.update k v ps))"
| "set_prop (JArr es ps) k v = Inr (JArr es (AList.update k v ps))"
| "set_prop (JBool b) k v = Inr (JBool b)"
| "set_prop (JNum n) k v = Inr (JNum n)"
| "set_prop (JStr s) k v = Inr (JStr s)"

text \<open>Sequencing of expression evaluation: a thrown value skips the rest.\<close>

fun bind_res :: "jsres \<Rightarrow> (jsval \<Rightarrow> jsres) \<Rightarrow> jsres" where
  "bind_res (Inl x) f = Inl x"
| "bind_res (Inr v) f = f v"

text \<open>
  \<^verbatim>\<open>a && b\<close> and \<^verbatim>\<open>a || b\<close>: the right operand is only evaluated (and can only
  throw) when the left one does not decide the result.
\<close>

fun js_and :: "jsres \<Rightarrow> jsres \<Rightarrow> jsres" where
  "js_and (Inl x) b = Inl x"
| "js_and (Inr a) b = (if truthy a then b else Inr a)"

fun js_or :: "jsres \<Rightarrow> jsres \<Rightarrow> jsres" where
  "js_or (Inl x) b = Inl x"
| "js_or (Inr a) b = (if truthy a then Inr a else b)"

section \<open>Requests, collaborators and effects\<close>

text \<open>
  The request exposes \<^verbatim>\<open>body\<close>, \<^verbatim>\<open>query\<close> and \<^verbatim>\<open>headers\<close>; each may be
  missing (\<^verbatim>\<open>undefined\<close>) or any other value.
\<close>

record request =
  body :: jsval
  query :: jsval
  headers :: jsval

text \<open>
  The two ways the verify callback is applied: with the request in front
  (\<^verbatim>\<open>passReqToCallback\<close>) or without it. The remaining arguments are the access token,
  the refresh token and the profile.
\<close>

datatype verify_args =
    WithReq request jsval jsval jsval
  | WithoutReq jsval jsval jsval

text \<open>
  What an application's verify callback does with the continuation it is given: the
  invocations \<^verbatim>\<open>verified(error, user, info)\<close> it makes, in order (none, one or
  several; an argument left out is \<^verbatim>\<open>undefined\<close>), and the value it throws
  synchronously afterwards, if any. A callback that answers later, from a database lookup
  say, throws nothing.
\<close>

record verify_behaviour =
  calls :: "(jsval \<times> jsval \<times> jsval) list"
  thrown :: "jsval option"

text \<open>
  The strategy object after construction: \<^verbatim>\<open>_profileURL\<close>, \<^verbatim>\<open>_passReqToCallback\<close>
  and \<^verbatim>\<open>_verify\<close>.
\<close>

record strategy =
  profileURL :: jsval
  passReqToCallback :: jsval
  verify :: "verify_args \<Rightarrow> verify_behaviour"

text \<open>
  The collaborators outside the repository: \<^verbatim>\<open>this._oauth2.get(url, token, cb)\<close>, which
  calls \<^verbatim>\<open>cb(error, body, res)\<close> once and is given here by the pair \<open>(error, body)\<close>
  it passes, and the built-in \<^verbatim>\<open>JSON.parse\<close>, which returns the parsed value or throws.
\<close>

record env =
  oauth2_get :: "jsval \<Rightarrow> jsval \<Rightarrow> jsval \<times> jsval"
  json_parse :: "jsval \<Rightarrow> jsres"

text \<open>
  The observable effects: the outbound GET with its URL and token, the application of the
  verify callback, and the three outcome callbacks \<^verbatim>\<open>success(user, info)\<close>,
  \<^verbatim>\<open>fail(info)\<close> and \<^verbatim>\<open>error(err)\<close> that the host framework puts on the
  strategy; these return without throwing.
\<close>

datatype event =
    OAuth2Get jsval jsval
  | Verify verify_args
  | Success jsval jsval
  | Fail jsval
  | Error jsval

text \<open>
  A statement's run: the effects in order, and the exception left uncaught, if any.
  \<open>eval_then\<close> evaluates an expression and goes on with its value, \<open>after\<close> puts
  effects in front of a run.
\<close>

type_synonym run = "event list \<times> jsval option"

fun eval_then :: "jsres \<Rightarrow> (jsval \<Rightarrow> run) \<Rightarrow> run" where
  "eval_then (Inl x) k = ([], Some x)"
| "eval_then (Inr v) k = k v"

fun after :: "event list \<Rightarrow> run \<Rightarrow> run" where
  "after es (es', x) = (es @ es', x)"

text \<open>
  \<^verbatim>\<open>try { r } catch (e) { h(e) }\<close>: the effects of \<open>r\<close> up to the throw stay,
  and the handler runs on the thrown value.
\<close>

fun try_catch :: "run \<Rightarrow> (jsval \<Rightarrow> run) \<Rightarrow> run" where
  "try_catch (es, None) h = (es, None)"
| "try_catch (es, Some x) h = after es (h x)"

fun is_outcome :: "event \<Rightarrow> bool" where
  "is_outcome (Success u i) = True"
| "is_outcome (Fail i) = True"
| "is_outcome (Error e) = True"
| "is_outcome (OAuth2Get u t) = False"
| "is_outcome (Verify a) = False"

text \<open>The outcome callbacks invoked in a run, in order.\<close>

definition outcomes :: "run \<Rightarrow> event list" where
  "outcomes r = filter is_outcome (fst r)"

section \<open>lib/Strategy.js\<close>

subsection \<open>authenticate\<close>

text \<open>Line 57: the access token, from body, query or headers.\<close>

definition accessToken_of :: "request \<Rightarrow> jsres" where
  "accessToken_of req =
     js_or (js_or (js_and (Inr (body req)) (get_prop (body req) ''access_token''))
                  (js_and (Inr (query req)) (get_prop (query req) ''access_token'')))
           (js_and (Inr (headers req)) (get_prop (headers req) ''access_token''))"

text \<open>Line 58: the refresh token, likewise.\<close>

definition refreshToken_of :: "request \<Rightarrow> jsres" where
  "refreshToken_of req =
     js_or (js_or (js_and (Inr (body req)) (get_prop (body req) ''refresh_token''))
                  (js_and (Inr (query req)) (get_prop (query req) ''refresh_token'')))
           (js_and (Inr (headers req)) (get_prop (headers req) ''refresh_token''))"

text \<open>Lines 67-72: the continuation handed to the verify callback.\<close>

definition verified :: "jsval \<Rightarrow> jsval \<Rightarrow> jsval \<Rightarrow> event" where
  "verified error user info =
     (if truthy error then Error error
      else if \<not> truthy user then Fail info
      else Success user info)"

text \<open>
  \<^verbatim>\<open>self._verify(..., verified)\<close>: the callback is applied, each of its invocations of
  \<^verbatim>\<open>verified\<close> reports an outcome, and what it throws propagates to the caller.
\<close>

definition call_verify :: "strategy \<Rightarrow> verify_args \<Rightarrow> run" where
  "call_verify self args =
     (let b = verify self args
      in (Verify args # map (\<lambda>(error, user, info). verified error user info) (calls b),
          thrown b))"

text \<open>Lines 64-79: the callback given to \<^verbatim>\<open>_loadUserProfile\<close>.\<close>

definition loaded :: "strategy \<Rightarrow> request \<Rightarrow> jsval \<Rightarrow> jsval \<Rightarrow> jsval \<Rightarrow> jsval \<Rightarrow> run" where
  "loaded self req accessToken refreshToken error profile =
     (if truthy error then ([Error error], None)
      else if truthy (passReqToCallback self)
        then call_verify self (WithReq req accessToken refreshToken profile)
        else call_verify self (WithoutReq accessToken refreshToken profile))"

text \<open>
  Lines 55-80. The profile loader is the strategy's \<^verbatim>\<open>_loadUserProfile\<close>, inherited from
  passport-oauth, which (the \<^verbatim>\<open>skipUserProfile\<close> option left at its default) applies
  \<^verbatim>\<open>userProfile(accessToken, done)\<close>; it is a parameter here, instantiated below with each
  of the two versions of \<^verbatim>\<open>userProfile\<close>.
\<close>

definition authenticate_with ::
  "(jsval \<Rightarrow> (jsval \<Rightarrow> jsval \<Rightarrow> run) \<Rightarrow> run) \<Rightarrow> strategy \<Rightarrow> request \<Rightarrow> run" where
  "authenticate_with loadUserProfile self req =
     eval_then (accessToken_of req) (\<lambda>accessToken.
     eval_then (refreshToken_of req) (\<lambda>refreshToken.
       if \<not> truthy accessToken
       then ([Fail (JObj [(''message'', JStr ''You should provide access_token'')])], None)
       else loadUserProfile accessToken (loaded self req accessToken refreshToken)))"

subsection \<open>userProfile\<close>

text \<open>
  Lines 100-118: the id overwrite and the profile literal, for the response body
  \<open>rbody\<close> and the value \<open>json0\<close> parsed from it.
\<close>

definition build_profile :: "jsval \<Rightarrow> jsval \<Rightarrow> jsres" where
  "build_profile rbody json0 =
     bind_res (get_prop json0 ''user_id'') (\<lambda>user_id.
     bind_res (set_prop json0 ''id'' user_id) (\<lambda>json.
     bind_res (get_prop json ''id'') (\<lambda>json_id.
     bind_res (get_prop json ''name'') (\<lambda>json_name.
     bind_res (get_prop json ''email'') (\<lambda>json_email.
       Inr (JObj
         [(''provider'', JStr ''amazon''),
          (''id'', json_id),
          (''displayName'', json_name),
          (''name'', JObj [(''familyName'', JStr ''''), (''givenName'', JStr '''')]),
          (''emails'', JArr [JObj [(''value'', json_email)]] []),
          (''photos'', JArr [] []),
          (''_raw'', rbody),
          (''_json'', json)]))))))"

text \<open>Lines 99-118: the body of the \<^verbatim>\<open>try\<close> block up to the profile.\<close>

definition parse_profile :: "env \<Rightarrow> jsval \<Rightarrow> jsres" where
  "parse_profile E rbody = bind_res (json_parse E rbody) (build_profile rbody)"

text \<open>Lines 87-125.\<close>

definition userProfile ::
  "env \<Rightarrow> strategy \<Rightarrow> jsval \<Rightarrow> (jsval \<Rightarrow> jsval \<Rightarrow> run) \<Rightarrow> run" where
  "userProfile E self accessToken done =
     (case oauth2_get E (profileURL self) accessToken of (error, rbody) \<Rightarrow>
        after [OAuth2Get (profileURL self) accessToken]
          (if truthy error then
             try_catch
               (eval_then (bind_res (get_prop error ''data'') (json_parse E)) (\<lambda>errorJSON.
                eval_then (get_prop errorJSON ''error_description'') (\<lambda>error_description.
                eval_then (get_prop errorJSON ''error'') (\<lambda>error_code.
                  done (InternalOAuthError error_description error_code) JUndefined))))
               (\<lambda>_. done (InternalOAuthError (JStr ''Failed to fetch user profile'') error)
                          JUndefined)
           else
             try_catch
               (eval_then (parse_profile E rbody) (\<lambda>profile.
                  done JNull profile))
               (\<lambda>e. done e JUndefined)))"

definition authenticate :: "env \<Rightarrow> strategy \<Rightarrow> request \<Rightarrow> run" where
  "authenticate E self req = authenticate_with (userProfile E self) self req"

section \<open>The second version of the file (part\_000)\<close>

text \<open>Lines 91-105 of part\_000: the profile literal.\<close>

definition build_profile_000 :: "jsval \<Rightarrow> jsval \<Rightarrow> jsres" where
  "build_profile_000 rbody json =
     bind_res (get_prop json ''id'') (\<lambda>json_id.
     bind_res (js_or (get_prop json ''displayName'') (Inr (JStr ''''))) (\<lambda>displayName.
     bind_res (js_or (js_and (get_prop json ''name'')
                        (bind_res (get_prop json ''name'') (\<lambda>n. get_prop n ''familyName'')))
                     (Inr (JStr ''''))) (\<lambda>familyName.
     bind_res (js_or (js_and (get_prop json ''name'')
                        (bind_res (get_prop json ''name'') (\<lambda>n. get_prop n ''givenName'')))
                     (Inr (JStr ''''))) (\<lambda>givenName.
     bind_res (js_or (get_prop json ''emails'') (Inr (JArr [] []))) (\<lambda>emails.
     bind_res (js_or (js_and (get_prop json ''image'')
                        (bind_res (get_prop json ''image'') (\<lambda>i. get_prop i ''url'')))
                     (Inr (JStr ''''))) (\<lambda>photo.
       Inr (JObj
         [(''provider'', JStr ''amazon''),
          (''id'', json_id),
          (''displayName'', displayName),
          (''name'', JObj [(''familyName'', familyName), (''givenName'', givenName)]),
          (''emails'', emails),
          (''photos'', JArr [JObj [(''value'', photo)]] []),
          (''_raw'', rbody),
          (''_json'', json)])))))))"

text \<open>Lines 90-105 of part\_000.\<close>

definition parse_profile_000 :: "env \<Rightarrow> jsval \<Rightarrow> jsres" where
  "parse_profile_000 E rbody = bind_res (json_parse E rbody) (build_profile_000 rbody)"

text \<open>Lines 85-112 of part\_000; the profile URL is a constant there.\<close>

definition userProfile_000 ::
  "env \<Rightarrow> jsval \<Rightarrow> (jsval \<Rightarrow> jsval \<Rightarrow> run) \<Rightarrow> run" where
  "userProfile_000 E accessToken done =
     (case oauth2_get E (JStr ''https://api.amazon.com/user/profile'') accessToken of
        (error, rbody) \<Rightarrow>
        after [OAuth2Get (JStr ''https://api.amazon.com/user/profile'') accessToken]
          (if truthy error
           then done (InternalOAuthError (JStr ''Failed to fetch user profile'') error)
                     JUndefined
           else
             try_catch
               (eval_then (parse_profile_000 E rbody) (\<lambda>profile.
                  done JNull profile))
               (\<lambda>e. done e JUndefined)))"

definition authenticate_000 :: "env \<Rightarrow> strategy \<Rightarrow> request \<Rightarrow> run" where
  "authenticate_000 E self req = authenticate_with (userProfile_000 E) self req"

section \<open>Notions of the specification\<close>

text \<open>
  The value a location (a request part, a parsed response) holds for a field: the property
  when it has one, \<^verbatim>\<open>undefined\<close> when the location is missing or has no such property.
\<close>

definition field_of :: "jsval \<Rightarrow> string \<Rightarrow> jsval" where
  "field_of loc k = (case get_prop loc k of Inr v \<Rightarrow> v | Inl x \<Rightarrow> JUndefined)"

text \<open>A location carries a field when its value for it is non-empty, that is, truthy.\<close>

definition carries :: "jsval \<Rightarrow> string \<Rightarrow> bool" where
  "carries loc k = (case get_prop loc k of Inr v \<Rightarrow> truthy v | Inl x \<Rightarrow> False)"

text \<open>The three candidate values of a field, in the priority order body, query, headers.\<close>

definition candidates :: "request \<Rightarrow> string \<Rightarrow> jsval list" where
  "candidates req k = [field_of (body req) k, field_of (query req) k, field_of (headers req) k]"

text \<open>A value, or the default that stands in for it when it is absent or otherwise falsy.\<close>

definition or_default :: "jsval \<Rightarrow> jsval \<Rightarrow> jsval" where
  "or_default v d = (if truthy v then v else d)"

text \<open>A field of the profile an evaluation produced.\<close>

definition profile_field :: "jsres \<Rightarrow> string \<Rightarrow> jsres" where
  "profile_field r k = bind_res r (\<lambda>profile. get_prop profile k)"

text \<open>A run that invokes exactly one outcome callback and lets no exception escape.\<close>

definition reports_once :: "run \<Rightarrow> bool" where
  "reports_once r = (length (outcomes r) = 1 \<and> snd r = None)"

text \<open>
  A run in which the verify callback, each time it is applied, invokes its continuation
  exactly once and throws nothing.
\<close>

fun answers_once :: "strategy \<Rightarrow> event \<Rightarrow> bool" where
  "answers_once self (Verify args) =
     (length (calls (verify self args)) = 1 \<and> thrown (verify self args) = None)"
| "answers_once self (OAuth2Get u t) = True"
| "answers_once self (Success u i) = True"
| "answers_once self (Fail i) = True"
| "answers_once self (Error e) = True"

definition applied_once :: "strategy \<Rightarrow> run \<Rightarrow> bool" where
  "applied_once self r = list_all (answers_once self) (fst r)"

section \<open>Concrete inputs\<close>

definition SyntaxError :: jsval where
  "SyntaxError = JObj [(''name'', JStr ''SyntaxError'')]"

text \<open>A parser that knows one text, and a provider that gives one answer to every GET.\<close>

definition parses_to :: "jsval \<Rightarrow> jsval \<Rightarrow> jsval \<Rightarrow> jsres" where
  "parses_to text json s = (if s = text then Inr json else Inl SyntaxError)"

definition answering :: "jsval \<Rightarrow> jsval \<Rightarrow> (jsval \<Rightarrow> jsres) \<Rightarrow> env" where
  "answering error rbody parse =
     \<lparr>oauth2_get = (\<lambda>url token. (error, rbody)), json_parse = parse\<rparr>"

definition amazon_url :: jsval where
  "amazon_url = JStr ''https://api.amazon.com/user/profile''"

text \<open>The profile response of the specification's example.\<close>

definition jane_body :: jsval where
  \<open>jane_body = JStr ''{"user_id": "123", "name": "Jane Doe", "email": "jane@example.com"}''\<close>

definition jane_json :: jsval where
  "jane_json = JObj [(''user_id'', JStr ''123''), (''name'', JStr ''Jane Doe''),
                     (''email'', JStr ''jane@example.com'')]"

definition jane_env :: env where
  "jane_env = answering JNull jane_body (parses_to jane_body jane_json)"

definition jane_profile :: jsval where
  "jane_profile = JObj
     [(''provider'', JStr ''amazon''),
      (''id'', JStr ''123''),
      (''displayName'', JStr ''Jane Doe''),
      (''name'', JObj [(''familyName'', JStr ''''), (''givenName'', JStr '''')]),
      (''emails'', JArr [JObj [(''value'', JStr ''jane@example.com'')]] []),
      (''photos'', JArr [] []),
      (''_raw'', jane_body),
      (''_json'', JObj [(''user_id'', JStr ''123''), (''name'', JStr ''Jane Doe''),
                        (''email'', JStr ''jane@example.com''), (''id'', JStr ''123'')])]"

text \<open>A response with nothing but \<^verbatim>\<open>user_id\<close>.\<close>

definition bare_body :: jsval where
  \<open>bare_body = JStr ''{"user_id": "123"}''\<close>

definition bare_json :: jsval where
  "bare_json = JObj [(''user_id'', JStr ''123'')]"

text \<open>A response with a native \<^verbatim>\<open>id\<close> and no \<^verbatim>\<open>user_id\<close>.\<close>

definition native_body :: jsval where
  \<open>native_body = JStr ''{"id": "native", "name": "Jane Doe"}''\<close>

definition native_json :: jsval where
  "native_json = JObj [(''id'', JStr ''native''), (''name'', JStr ''Jane Doe'')]"

definition native_env :: env where
  "native_env = answering JNull native_body (parses_to native_body native_json)"

text \<open>A response that has the fields of both schemas.\<close>

definition both_body :: jsval where
  \<open>both_body = JStr ''{"id": "native", "user_id": "123", "displayName": "J. Doe", "name": {"familyName": "Doe", "givenName": "Jane"}, "email": "jane@example.com", "emails": [{"value": "jane@legacy.example"}], "image": {"url": "http://img.example/jane.png"}}''\<close>

definition both_json :: jsval where
  "both_json = JObj
     [(''id'', JStr ''native''), (''user_id'', JStr ''123''),
      (''displayName'', JStr ''J. Doe''),
      (''name'', JObj [(''familyName'', JStr ''Doe''), (''givenName'', JStr ''Jane'')]),
      (''email'', JStr ''jane@example.com''),
      (''emails'', JArr [JObj [(''value'', JStr ''jane@legacy.example'')]] []),
      (''image'', JObj [(''url'', JStr ''http://img.example/jane.png'')])]"

definition both_env :: env where
  "both_env = answering JNull both_body (parses_to both_body both_json)"

text \<open>
  Failed fetches, with the error object node-oauth passes (\<^verbatim>\<open>{statusCode, data}\<close>): a
  structured error payload, the payload \<^verbatim>\<open>null\<close>, and a payload that is not JSON.
\<close>

definition expired_payload :: jsval where
  \<open>expired_payload = JStr ''{"error": "invalid_token", "error_description": "token expired"}''\<close>

definition expired_json :: jsval where
  "expired_json =
     JObj [(''error'', JStr ''invalid_token''), (''error_description'', JStr ''token expired'')]"

definition expired_error :: jsval where
  "expired_error = JObj [(''statusCode'', JNum 400), (''data'', expired_payload)]"

definition expired_env :: env where
  "expired_env = answering expired_error expired_payload (parses_to expired_payload expired_json)"

definition null_error :: jsval where
  "null_error = JObj [(''statusCode'', JNum 500), (''data'', JStr ''null'')]"

definition null_env :: env where
  "null_env = answering null_error (JStr ''null'') (parses_to (JStr ''null'') JNull)"

definition gateway_error :: jsval where
  "gateway_error = JObj [(''statusCode'', JNum 502), (''data'', JStr ''Bad Gateway'')]"

definition gateway_env :: env where
  "gateway_env = answering gateway_error (JStr ''Bad Gateway'') (parses_to (JStr ''null'') JNull)"

text \<open>A verify callback that accepts every profile, one that rejects, and one that never answers.\<close>

definition accepting :: "verify_args \<Rightarrow> verify_behaviour" where
  "accepting args =
     \<lparr>calls = [(JNull, JObj [(''id'', JNum 1)], JObj [(''scope'', JStr ''all'')])],
      thrown = None\<rparr>"

definition rejecting :: "verify_args \<Rightarrow> verify_behaviour" where
  "rejecting args =
     \<lparr>calls = [(JNull, JBool False, JObj [(''message'', JStr ''rejected'')])], thrown = None\<rparr>"

definition silent :: "verify_args \<Rightarrow> verify_behaviour" where
  "silent args = \<lparr>calls = [], thrown = None\<rparr>"

text \<open>
  A verify callback that answers once for a profile and throws when it is given none, as
  one that reads \<^verbatim>\<open>profile.id\<close> does.
\<close>

definition picky :: "verify_args \<Rightarrow> verify_behaviour" where
  "picky args =
     (case args of
        WithReq req t r profile \<Rightarrow>
          if truthy profile then accepting args else \<lparr>calls = [], thrown = Some TypeError\<rparr>
      | WithoutReq t r profile \<Rightarrow>
          if truthy profile then accepting args else \<lparr>calls = [], thrown = Some TypeError\<rparr>)"

definition strategy_of :: "(verify_args \<Rightarrow> verify_behaviour) \<Rightarrow> strategy" where
  "strategy_of v = \<lparr>profileURL = amazon_url, passReqToCallback = JUndefined, verify = v\<rparr>"

text \<open>
  A request without any token, one with a token in the headers only, and one with a
  different token in each location.
\<close>

definition no_token_req :: request where
  "no_token_req = \<lparr>body = JObj [], query = JUndefined,
                    headers = JObj [(''access_token'', JStr '''')]\<rparr>"

definition headers_only_req :: request where
  "headers_only_req = \<lparr>body = JUndefined, query = JObj [],
                        headers = JObj [(''access_token'', JStr ''H'')]\<rparr>"

definition three_tokens_req :: request where
  "three_tokens_req =
     \<lparr>body = JObj [(''access_token'', JStr ''B'')],
      query = JObj [(''access_token'', JStr ''Q''), (''refresh_token'', JStr ''RQ'')],
      headers = JObj [(''access_token'', JStr ''H''), (''refresh_token'', JStr ''RH'')]\<rparr>"

section \<open>Basic facts\<close>

lemmas run_defs =
  authenticate_def authenticate_000_def authenticate_with_def accessToken_of_def
  refreshToken_of_def loaded_def call_verify_def verified_def userProfile_def
  userProfile_000_def parse_profile_def parse_profile_000_def build_profile_def
  build_profile_000_def InternalOAuthError_def lookup_def outcomes_def

lemmas input_defs =
  answering_def parses_to_def strategy_of_def amazon_url_def three_tokens_req_def
  accepting_def rejecting_def silent_def

lemma lookup_update_same: "lookup (AList.update k v ps) k = v"
  by (simp add: lookup_def update_conv')

lemma lookup_update_other: "k' \<noteq> k \<Longrightarrow> lookup (AList.update k v ps) k' = lookup ps k'"
  by (simp add: lookup_def update_conv')

lemma get_prop_field:
  "v \<noteq> JNull \<Longrightarrow> v \<noteq> JUndefined \<Longrightarrow> get_prop v k = Inr (field_of v k)"
  by (cases v) (simp_all add: field_of_def)

lemma truthy_get_prop: "truthy v \<Longrightarrow> get_prop v k = Inr (field_of v k)"
  by (cases v) (simp_all add: field_of_def)

lemma field_of_falsy: "\<not> truthy v \<Longrightarrow> field_of v k = JUndefined"
  by (cases v) (simp_all add: field_of_def)

lemma truthy_field_of: "truthy (field_of loc k) \<Longrightarrow> truthy loc"
  by (cases loc) (simp_all add: field_of_def)

lemma carries_field: "carries loc k = truthy (field_of loc k)"
  by (cases loc) (simp_all add: carries_def field_of_def)

lemma guarded_prop:
  "js_and (Inr loc) (get_prop loc k) = Inr (if truthy loc then field_of loc k else loc)"
  by (cases loc) (simp_all add: field_of_def)

lemma guarded_or_default:
  "js_or (js_and (Inr n) (get_prop n k)) (Inr d) = Inr (or_default (field_of n k) d)"
  unfolding guarded_prop or_default_def
  using truthy_field_of[of n k] by auto

lemma js_or_default: "js_or (Inr v) (Inr d) = Inr (or_default v d)"
  by (simp add: or_default_def)

text \<open>The token expression of lines 57 and 58 never throws.\<close>

lemma token_expr:
  "js_or (js_or (js_and (Inr b) (get_prop b k)) (js_and (Inr q) (get_prop q k)))
         (js_and (Inr h) (get_prop h k)) =
   Inr (if truthy (field_of b k) then field_of b k
        else if truthy (field_of q k) then field_of q k
        else if truthy h then field_of h k else h)"
  unfolding guarded_prop
  using truthy_field_of[of b k] truthy_field_of[of q k]
  by auto

text \<open>With a token, \<^verbatim>\<open>authenticate\<close> hands over to the profile loader.\<close>

lemma authenticate_with_token:
  assumes "accessToken_of req = Inr t" and "truthy t"
  shows "\<exists>r. refreshToken_of req = Inr r
           \<and> authenticate_with load self req = load t (loaded self req t r)"
  using assms
  unfolding authenticate_with_def refreshToken_of_def token_expr
  by simp

lemma loaded_error: "truthy e \<Longrightarrow> loaded self req t r e p = ([Error e], None)"
  by (simp add: loaded_def)

lemma truthy_InternalOAuthError: "truthy (InternalOAuthError m e)"
  by (simp add: InternalOAuthError_def)

text \<open>The profile of lib/Strategy.js, for every parsed value that has properties to read.\<close>

lemma set_prop_id:
  assumes "v \<noteq> JNull" and "v \<noteq> JUndefined"
  shows "\<exists>w. set_prop v ''id'' (field_of v ''user_id'') = Inr w
     \<and> w \<noteq> JNull \<and> w \<noteq> JUndefined
     \<and> field_of w ''id'' = field_of v ''user_id''
     \<and> field_of w ''name'' = field_of v ''name''
     \<and> field_of w ''email'' = field_of v ''email''"
  using assms
  by (cases v) (simp_all add: field_of_def lookup_update_same lookup_update_other)

lemma build_profile_value:
  assumes "json \<noteq> JNull" and "json \<noteq> JUndefined"
  shows "\<exists>json'. set_prop json ''id'' (field_of json ''user_id'') = Inr json'
     \<and> json' \<noteq> JNull \<and> json' \<noteq> JUndefined
     \<and> field_of json' ''id'' = field_of json ''user_id''
     \<and> build_profile rbody json = Inr (JObj
         [(''provider'', JStr ''amazon''),
          (''id'', field_of json ''user_id''),
          (''displayName'', field_of json ''name''),
          (''name'', JObj [(''familyName'', JStr ''''), (''givenName'', JStr '''')]),
          (''emails'', JArr [JObj [(''value'', field_of json ''email'')]] []),
          (''photos'', JArr [] []),
          (''_raw'', rbody),
          (''_json'', json')])"
proof -
  from set_prop_id [OF assms] obtain w where
    w: "set_prop json ''id'' (field_of json ''user_id'') = Inr w"
      "w \<noteq> JNull" "w \<noteq> JUndefined"
      "field_of w ''id'' = field_of json ''user_id''"
      "field_of w ''name'' = field_of json ''name''"
      "field_of w ''email'' = field_of json ''email''"
    by blast
  have "build_profile rbody json = Inr (JObj
         [(''provider'', JStr ''amazon''),
          (''id'', field_of json ''user_id''),
          (''displayName'', field_of json ''name''),
          (''name'', JObj [(''familyName'', JStr ''''), (''givenName'', JStr '''')]),
          (''emails'', JArr [JObj [(''value'', field_of json ''email'')]] []),
          (''photos'', JArr [] []),
          (''_raw'', rbody),
          (''_json'', w)])"
    unfolding build_profile_def
    by (simp add: get_prop_field assms w)
  with w show ?thesis by blast
qed

text \<open>The profile of part\_000, likewise.\<close>

lemma build_profile_000_value:
  assumes "json \<noteq> JNull" and "json \<noteq> JUndefined"
  shows "build_profile_000 rbody json = Inr (JObj
         [(''provider'', JStr ''amazon''),
          (''id'', field_of json ''id''),
          (''displayName'', or_default (field_of json ''displayName'') (JStr '''')),
          (''name'', JObj
             [(''familyName'',
                 or_default (field_of (field_of json ''name'') ''familyName'') (JStr '''')),
              (''givenName'',
                 or_default (field_of (field_of json ''name'') ''givenName'') (JStr ''''))]),
          (''emails'', or_default (field_of json ''emails'') (JArr [] [])),
          (''photos'', JArr [JObj [(''value'',
              or_default (field_of (field_of json ''image'') ''url'') (JStr ''''))]] []),
          (''_raw'', rbody),
          (''_json'', json)])"
  unfolding build_profile_000_def
  by (simp add: get_prop_field [OF assms] guarded_or_default js_or_default
        del: js_and.simps js_or.simps)

text \<open>
  A run in which the verify callback answers once each time it is applied reports once: the
  callback of the profile loader, the two profile loaders, \<^verbatim>\<open>authenticate\<close>.
\<close>

lemma is_outcome_verified: "is_outcome (verified e u i)"
  by (simp add: verified_def)

lemma outcomes_call_verify:
  "outcomes (call_verify self args) =
     map (\<lambda>(e, u, i). verified e u i) (calls (verify self args))"
  by (simp add: outcomes_def call_verify_def Let_def filter_id_conv is_outcome_verified
        split_beta)

lemma applied_once_iff:
  "applied_once self r =
     (\<forall>args. Verify args \<in> set (fst r) \<longrightarrow>
        length (calls (verify self args)) = 1 \<and> thrown (verify self args) = None)"
proof
  assume a: "applied_once self r"
  show "\<forall>args. Verify args \<in> set (fst r) \<longrightarrow>
        length (calls (verify self args)) = 1 \<and> thrown (verify self args) = None"
  proof (intro allI impI)
    fix args assume "Verify args \<in> set (fst r)"
    with a have "answers_once self (Verify args)"
      unfolding applied_once_def list_all_iff by blast
    then show "length (calls (verify self args)) = 1 \<and> thrown (verify self args) = None"
      by simp
  qed
next
  assume h: "\<forall>args. Verify args \<in> set (fst r) \<longrightarrow>
        length (calls (verify self args)) = 1 \<and> thrown (verify self args) = None"
  have "answers_once self ev" if "ev \<in> set (fst r)" for ev
  proof (cases ev)
    case (Verify args)
    with that h show ?thesis by simp
  qed simp_all
  then show "applied_once self r"
    by (simp add: applied_once_def list_all_iff)
qed

lemma loaded_applied:
  assumes "applied_once S (loaded S req t r e p)"
  shows "reports_once (loaded S req t r e p)"
proof (cases "truthy e")
  case True
  then show ?thesis by (simp add: loaded_def reports_once_def outcomes_def)
next
  case False
  define args where "args = (if truthy (passReqToCallback S) then WithReq req t r p
                              else WithoutReq t r p)"
  have l: "loaded S req t r e p = call_verify S args"
    using False by (simp add: loaded_def args_def)
  from assms have "length (calls (verify S args)) = 1 \<and> thrown (verify S args) = None"
    unfolding l by (simp add: applied_once_def call_verify_def Let_def)
  then show ?thesis
    unfolding l
    by (simp add: reports_once_def outcomes_call_verify) (simp add: call_verify_def Let_def)
qed

lemma after_get_applied: "applied_once S (after [OAuth2Get u t] r) = applied_once S r"
  by (cases r) (simp add: applied_once_def)

lemma after_get_reports: "reports_once (after [OAuth2Get u t] r) = reports_once r"
  by (cases r) (simp add: reports_once_def outcomes_def)

lemma eval_then_applied:
  assumes "\<And>v. (\<exists>x. k v = ([], Some x)) \<or> (applied_once S (k v) \<longrightarrow> reports_once (k v))"
  shows "(\<exists>x. eval_then r k = ([], Some x))
       \<or> (applied_once S (eval_then r k) \<longrightarrow> reports_once (eval_then r k))"
  using assms by (cases r) auto

lemma try_catch_applied:
  assumes b: "(\<exists>x. r = ([], Some x)) \<or> (applied_once S r \<longrightarrow> reports_once r)"
    and h: "\<And>x. applied_once S (h x) \<longrightarrow> reports_once (h x)"
  shows "applied_once S (try_catch r h) \<longrightarrow> reports_once (try_catch r h)"
proof
  assume a: "applied_once S (try_catch r h)"
  from b show "reports_once (try_catch r h)"
  proof
    assume "\<exists>x. r = ([], Some x)"
    then obtain x where "r = ([], Some x)" by blast
    then have "try_catch r h = h x" by (cases "h x") simp
    with a h show ?thesis by simp
  next
    assume p: "applied_once S r \<longrightarrow> reports_once r"
    obtain es x where r: "r = (es, x)" by (cases r)
    show ?thesis
    proof (cases x)
      case None
      with r a p show ?thesis by simp
    next
      case (Some y)
      with r a have "applied_once S r"
        by (cases "h y") (simp add: applied_once_def)
      with p have "reports_once r" by simp
      with r Some show ?thesis by (simp add: reports_once_def)
    qed
  qed
qed

lemma userProfile_applied:
  assumes d: "\<And>e p. applied_once S (done e p) \<longrightarrow> reports_once (done e p)"
  shows "applied_once S (userProfile E self t done) \<longrightarrow> reports_once (userProfile E self t done)"
proof -
  obtain error rbody where g: "oauth2_get E (profileURL self) t = (error, rbody)"
    by (cases "oauth2_get E (profileURL self) t")
  let ?r1 = "try_catch
       (eval_then (bind_res (get_prop error ''data'') (json_parse E)) (\<lambda>errorJSON.
        eval_then (get_prop errorJSON ''error_description'') (\<lambda>error_description.
        eval_then (get_prop errorJSON ''error'') (\<lambda>error_code.
          done (InternalOAuthError error_description error_code) JUndefined))))
       (\<lambda>_. done (InternalOAuthError (JStr ''Failed to fetch user profile'') error) JUndefined)"
  let ?r2 = "try_catch
       (eval_then (parse_profile E rbody) (\<lambda>profile. done JNull profile))
       (\<lambda>e. done e JUndefined)"
  have 1: "applied_once S ?r1 \<longrightarrow> reports_once ?r1"
    by (intro try_catch_applied eval_then_applied disjI2 d)
  have 2: "applied_once S ?r2 \<longrightarrow> reports_once ?r2"
    by (intro try_catch_applied eval_then_applied disjI2 d)
  show ?thesis
    unfolding userProfile_def g
    using 1 2 by (simp add: after_get_applied after_get_reports)
qed

lemma userProfile_000_applied:
  assumes d: "\<And>e p. applied_once S (done e p) \<longrightarrow> reports_once (done e p)"
  shows "applied_once S (userProfile_000 E t done) \<longrightarrow> reports_once (userProfile_000 E t done)"
proof -
  obtain error rbody where
    g: "oauth2_get E (JStr ''https://api.amazon.com/user/profile'') t = (error, rbody)"
    by (cases "oauth2_get E (JStr ''https://api.amazon.com/user/profile'') t")
  let ?r2 = "try_catch
       (eval_then (parse_profile_000 E rbody) (\<lambda>profile. done JNull profile))
       (\<lambda>e. done e JUndefined)"
  have 2: "applied_once S ?r2 \<longrightarrow> reports_once ?r2"
    by (intro try_catch_applied eval_then_applied disjI2 d)
  show ?thesis
    unfolding userProfile_000_def g
    using 2 d by (simp add: after_get_applied after_get_reports)
qed

lemma authenticate_with_applied:
  assumes l: "\<And>t done. (\<And>e p. applied_once self (done e p) \<longrightarrow> reports_once (done e p)) \<Longrightarrow>
                applied_once self (load t done) \<longrightarrow> reports_once (load t done)"
    and a: "applied_once self (authenticate_with load self req)"
  shows "reports_once (authenticate_with load self req)"
proof -
  have d: "\<And>t r e p. applied_once self (loaded self req t r e p) \<longrightarrow>
             reports_once (loaded self req t r e p)"
    using loaded_applied by blast
  show ?thesis
    using a l [OF d]
    unfolding authenticate_with_def accessToken_of_def refreshToken_of_def token_expr
    by (simp add: reports_once_def outcomes_def split: if_splits)
qed

text \<open>A successful fetch in lib/Strategy.js hands the profile to the verify callback.\<close>

lemma userProfile_success:
  assumes "oauth2_get E (profileURL self) t = (e, rbody)" and "\<not> truthy e"
    and "parse_profile E rbody = Inr profile" and "snd (done JNull profile) = None"
  shows "userProfile E self t done = after [OAuth2Get (profileURL self) t] (done JNull profile)"
  unfolding userProfile_def
  using assms by (cases "done JNull profile") simp

lemma authenticate_verified_run:
  assumes "accessToken_of req = Inr t" and "truthy t" and "refreshToken_of req = Inr r"
    and "oauth2_get E (profileURL self) t = (e, rbody)" and "\<not> truthy e"
    and "parse_profile E rbody = Inr profile"
    and "args = (if truthy (passReqToCallback self) then WithReq req t r profile
                 else WithoutReq t r profile)"
    and "thrown (verify self args) = None"
  shows "authenticate E self req =
     (OAuth2Get (profileURL self) t # Verify args #
      map (\<lambda>(e, u, i). verified e u i) (calls (verify self args)), None)"
proof -
  from authenticate_with_token [OF assms(1,2), of "userProfile E self" self] assms(3)
  have a: "authenticate E self req = userProfile E self t (loaded self req t r)"
    by (auto simp: authenticate_def)
  have l: "loaded self req t r JNull profile =
      (Verify args # map (\<lambda>(e, u, i). verified e u i) (calls (verify self args)), None)"
    using assms(7,8) by (auto simp: loaded_def call_verify_def Let_def split: if_splits)
  have "userProfile E self t (loaded self req t r) =
      after [OAuth2Get (profileURL self) t] (loaded self req t r JNull profile)"
    by (rule userProfile_success [OF assms(4,5,6)]) (simp add: l)
  with a l show ?thesis by simp
qed

text \<open>A failed fetch in lib/Strategy.js ends in \<^verbatim>\<open>error\<close> with the classified error.\<close>

lemma userProfile_failure:
  assumes "oauth2_get E (profileURL self) t = (error, rbody)" and "truthy error"
  shows "userProfile E self t (loaded self req t r) =
     ([OAuth2Get (profileURL self) t,
       Error (case json_parse E (field_of error ''data'') of
                Inl x \<Rightarrow> InternalOAuthError (JStr ''Failed to fetch user profile'') error
              | Inr j \<Rightarrow>
                  if j = JNull \<or> j = JUndefined
                  then InternalOAuthError (JStr ''Failed to fetch user profile'') error
                  else InternalOAuthError (field_of j ''error_description'')
                         (field_of j ''error''))],
      None)"
proof (cases "json_parse E (field_of error ''data'')")
  case (Inl x)
  then show ?thesis
    unfolding userProfile_def
    using assms by (simp add: truthy_get_prop loaded_error truthy_InternalOAuthError)
next
  case (Inr j)
  show ?thesis
  proof (cases "j = JNull \<or> j = JUndefined")
    case True
    then show ?thesis
      unfolding userProfile_def
      using assms Inr
      by (auto simp: truthy_get_prop loaded_error truthy_InternalOAuthError)
  next
    case False
    then show ?thesis
      unfolding userProfile_def
      using assms Inr
      by (simp add: truthy_get_prop get_prop_field loaded_error truthy_InternalOAuthError)
  qed
qed

section \<open>Exactly one outcome per attempt\<close>

text \<open>
  C1, as the code has it. In every call of \<^verbatim>\<open>authenticate\<close> in which the
  application's verify callback, each time it is applied in that call, invokes its
  continuation exactly once and throws nothing, exactly one of \<^verbatim>\<open>success\<close>,
  \<^verbatim>\<open>fail\<close> and \<^verbatim>\<open>error\<close> is invoked and no exception escapes. This covers
  every control path: missing token and failed fetch, where the callback is not applied and
  nothing is asked of it, parse failure, and the three answers of the verify callback. It
  holds for both versions of the file.
\<close>

theorem exactly_one_outcome:
  "((\<forall>args. Verify args \<in> set (fst (authenticate E self req)) \<longrightarrow>
        length (calls (verify self args)) = 1 \<and> thrown (verify self args) = None) \<longrightarrow>
      length (outcomes (authenticate E self req)) = 1 \<and> snd (authenticate E self req) = None)
   \<and> ((\<forall>args. Verify args \<in> set (fst (authenticate_000 E self req)) \<longrightarrow>
        length (calls (verify self args)) = 1 \<and> thrown (verify self args) = None) \<longrightarrow>
      length (outcomes (authenticate_000 E self req)) = 1
      \<and> snd (authenticate_000 E self req) = None)"
proof -
  have 1: "applied_once self (authenticate E self req) \<longrightarrow>
           reports_once (authenticate E self req)"
    unfolding authenticate_def
    using authenticate_with_applied [of self "userProfile E self" req] userProfile_applied
    by blast
  have 2: "applied_once self (authenticate_000 E self req) \<longrightarrow>
           reports_once (authenticate_000 E self req)"
    unfolding authenticate_000_def
    using authenticate_with_applied [of self "userProfile_000 E" req] userProfile_000_applied
    by blast
  from 1 2 show ?thesis
    unfolding applied_once_iff reports_once_def by blast
qed

text \<open>
  The theorem at work: on accepted credentials with a callback that would throw on a
  missing profile but is never given one, on a request without a token and on a failed fetch
  with a callback that never answers, and on a rejection in the second version. The
  hypothesis is met in its executable form, \<open>applied_once\<close>.
\<close>

theorem exactly_one_outcome_witness:
  "applied_once (strategy_of picky) (authenticate jane_env (strategy_of picky) three_tokens_req)
   \<and> outcomes (authenticate jane_env (strategy_of picky) three_tokens_req) =
        [Success (JObj [(''id'', JNum 1)]) (JObj [(''scope'', JStr ''all'')])]
   \<and> snd (authenticate jane_env (strategy_of picky) three_tokens_req) = None
   \<and> thrown (verify (strategy_of picky) (WithoutReq (JStr ''B'') (JStr ''RQ'') JUndefined)) \<noteq> None
   \<and> applied_once (strategy_of silent) (authenticate jane_env (strategy_of silent) no_token_req)
   \<and> length (outcomes (authenticate jane_env (strategy_of silent) no_token_req)) = 1
   \<and> applied_once (strategy_of silent)
        (authenticate gateway_env (strategy_of silent) three_tokens_req)
   \<and> length (outcomes (authenticate gateway_env (strategy_of silent) three_tokens_req)) = 1
   \<and> applied_once (strategy_of rejecting)
        (authenticate_000 jane_env (strategy_of rejecting) three_tokens_req)
   \<and> length (outcomes (authenticate_000 jane_env (strategy_of rejecting) three_tokens_req)) = 1"
proof -
  have p: "authenticate jane_env (strategy_of picky) three_tokens_req =
     ([OAuth2Get amazon_url (JStr ''B''),
       Verify (WithoutReq (JStr ''B'') (JStr ''RQ'') jane_profile),
       Success (JObj [(''id'', JNum 1)]) (JObj [(''scope'', JStr ''all'')])], None)"
    by (simp add: run_defs input_defs picky_def jane_env_def jane_json_def jane_profile_def)
  have hp: "applied_once (strategy_of picky)
      (authenticate jane_env (strategy_of picky) three_tokens_req)"
    unfolding p
    by (simp add: applied_once_def strategy_of_def picky_def accepting_def jane_profile_def)
  have tp: "thrown (verify (strategy_of picky) (WithoutReq (JStr ''B'') (JStr ''RQ'') JUndefined))
        \<noteq> None"
    by (simp add: strategy_of_def picky_def)
  have n: "authenticate jane_env (strategy_of silent) no_token_req =
     ([Fail (JObj [(''message'', JStr ''You should provide access_token'')])], None)"
    by (simp add: run_defs input_defs no_token_req_def)
  have hn: "applied_once (strategy_of silent)
      (authenticate jane_env (strategy_of silent) no_token_req)"
    unfolding n by (simp add: applied_once_def)
  have g: "authenticate gateway_env (strategy_of silent) three_tokens_req =
     ([OAuth2Get amazon_url (JStr ''B''),
       Error (InternalOAuthError (JStr ''Failed to fetch user profile'') gateway_error)], None)"
    by (simp add: run_defs input_defs gateway_env_def gateway_error_def)
  have hg: "applied_once (strategy_of silent)
      (authenticate gateway_env (strategy_of silent) three_tokens_req)"
    unfolding g by (simp add: applied_once_def)
  have hr: "applied_once (strategy_of rejecting)
      (authenticate_000 jane_env (strategy_of rejecting) three_tokens_req)"
    unfolding applied_once_iff by (simp add: strategy_of_def rejecting_def)
  from tp p
    hp hp [unfolded applied_once_iff] hn hn [unfolded applied_once_iff]
    hg hg [unfolded applied_once_iff] hr hr [unfolded applied_once_iff]
    exactly_one_outcome [of jane_env "strategy_of picky" three_tokens_req]
    exactly_one_outcome [of jane_env "strategy_of silent" no_token_req]
    exactly_one_outcome [of gateway_env "strategy_of silent" three_tokens_req]
    exactly_one_outcome [of jane_env "strategy_of rejecting" three_tokens_req]
  show ?thesis by (simp add: outcomes_def)
qed

text \<open>
  C1 as stated, for every call, fails: with a verify callback that returns without invoking
  its continuation, the token is accepted, the profile is fetched, the callback is applied,
  and no outcome callback is invoked at all.
\<close>

theorem silent_verify_counterexample:
  "authenticate jane_env (strategy_of silent) three_tokens_req =
     ([OAuth2Get amazon_url (JStr ''B''),
       Verify (WithoutReq (JStr ''B'') (JStr ''RQ'') jane_profile)], None)
   \<and> outcomes (authenticate jane_env (strategy_of silent) three_tokens_req) = []
   \<and> length (outcomes (authenticate jane_env (strategy_of silent) three_tokens_req)) \<noteq> 1"
  by (simp add: run_defs input_defs jane_env_def jane_json_def jane_profile_def)

section \<open>Missing access token\<close>

text \<open>
  C2. When none of body, query and headers carries a non-empty \<^verbatim>\<open>access_token\<close>, the run
  of \<^verbatim>\<open>authenticate\<close> consists of the single effect
  \<^verbatim>\<open>fail({message: 'You should provide access_token'})\<close>: no GET is sent, the verify
  callback is not applied, neither \<^verbatim>\<open>success\<close> nor \<^verbatim>\<open>error\<close> is invoked and
  nothing is thrown. Both versions of the file behave so.
\<close>

theorem missing_access_token_fails:
  assumes "\<not> carries (body req) ''access_token''"
    and "\<not> carries (query req) ''access_token''"
    and "\<not> carries (headers req) ''access_token''"
  shows "authenticate E self req =
           ([Fail (JObj [(''message'', JStr ''You should provide access_token'')])], None)
       \<and> authenticate_000 E self req =
           ([Fail (JObj [(''message'', JStr ''You should provide access_token'')])], None)"
  using assms
  unfolding authenticate_def authenticate_000_def authenticate_with_def
    accessToken_of_def refreshToken_of_def token_expr carries_field
  by (auto split: if_splits)

text \<open>
  A request with an empty body object, no query and an empty \<^verbatim>\<open>access_token\<close> header.
\<close>

theorem missing_access_token_fails_witness:
  "\<not> carries (body no_token_req) ''access_token''
   \<and> \<not> carries (query no_token_req) ''access_token''
   \<and> \<not> carries (headers no_token_req) ''access_token''
   \<and> authenticate jane_env (strategy_of accepting) no_token_req =
        ([Fail (JObj [(''message'', JStr ''You should provide access_token'')])], None)
   \<and> authenticate_000 jane_env (strategy_of accepting) no_token_req =
        ([Fail (JObj [(''message'', JStr ''You should provide access_token'')])], None)"
proof -
  have b: "\<not> carries (body no_token_req) ''access_token''"
    by (simp add: no_token_req_def carries_def lookup_def)
  have q: "\<not> carries (query no_token_req) ''access_token''"
    by (simp add: no_token_req_def carries_def)
  have h: "\<not> carries (headers no_token_req) ''access_token''"
    by (simp add: no_token_req_def carries_def lookup_def)
  from missing_access_token_fails [OF b q h, of jane_env "strategy_of accepting"] b q h
  show ?thesis by simp
qed

section \<open>Token extraction\<close>

text \<open>
  C3. The access token is the first non-empty (truthy) value among the
  \<^verbatim>\<open>access_token\<close> fields of body, query and headers, in that order, and the refresh
  token is the first non-empty value among their \<^verbatim>\<open>refresh_token\<close> fields; when no
  location carries one, the extracted value is empty (falsy), and the extraction never
  throws. The two are extracted independently: the access token does not change when the
  \<^verbatim>\<open>refresh_token\<close> properties of the three locations are set to other values, nor the
  refresh token when their \<^verbatim>\<open>access_token\<close> properties are.
\<close>

theorem token_priority:
  "(\<forall>v. find truthy (candidates req ''access_token'') = Some v \<longrightarrow>
        accessToken_of req = Inr v)
   \<and> (find truthy (candidates req ''access_token'') = None \<longrightarrow>
        (\<exists>v. accessToken_of req = Inr v \<and> \<not> truthy v))
   \<and> (\<forall>v. find truthy (candidates req ''refresh_token'') = Some v \<longrightarrow>
        refreshToken_of req = Inr v)
   \<and> (find truthy (candidates req ''refresh_token'') = None \<longrightarrow>
        (\<exists>v. refreshToken_of req = Inr v \<and> \<not> truthy v))
   \<and> accessToken_of
         \<lparr>body = JObj (AList.update ''refresh_token'' x bs),
          query = JObj (AList.update ''refresh_token'' y qs),
          headers = JObj (AList.update ''refresh_token'' z hs)\<rparr> =
       accessToken_of \<lparr>body = JObj bs, query = JObj qs, headers = JObj hs\<rparr>
   \<and> refreshToken_of
         \<lparr>body = JObj (AList.update ''access_token'' x bs),
          query = JObj (AList.update ''access_token'' y qs),
          headers = JObj (AList.update ''access_token'' z hs)\<rparr> =
       refreshToken_of \<lparr>body = JObj bs, query = JObj qs, headers = JObj hs\<rparr>"
proof -
  have 1: "(\<forall>v. find truthy (candidates req ''access_token'') = Some v \<longrightarrow>
        accessToken_of req = Inr v)
   \<and> (find truthy (candidates req ''access_token'') = None \<longrightarrow>
        (\<exists>v. accessToken_of req = Inr v \<and> \<not> truthy v))
   \<and> (\<forall>v. find truthy (candidates req ''refresh_token'') = Some v \<longrightarrow>
        refreshToken_of req = Inr v)
   \<and> (find truthy (candidates req ''refresh_token'') = None \<longrightarrow>
        (\<exists>v. refreshToken_of req = Inr v \<and> \<not> truthy v))"
    unfolding accessToken_of_def refreshToken_of_def token_expr candidates_def
    using truthy_field_of[of "headers req" "''access_token''"]
          truthy_field_of[of "headers req" "''refresh_token''"]
    by (auto split: if_splits)
  have 2: "accessToken_of
         \<lparr>body = JObj (AList.update ''refresh_token'' x bs),
          query = JObj (AList.update ''refresh_token'' y qs),
          headers = JObj (AList.update ''refresh_token'' z hs)\<rparr> =
       accessToken_of \<lparr>body = JObj bs, query = JObj qs, headers = JObj hs\<rparr>"
    by (simp add: accessToken_of_def lookup_update_other)
  have 3: "refreshToken_of
         \<lparr>body = JObj (AList.update ''access_token'' x bs),
          query = JObj (AList.update ''access_token'' y qs),
          headers = JObj (AList.update ''access_token'' z hs)\<rparr> =
       refreshToken_of \<lparr>body = JObj bs, query = JObj qs, headers = JObj hs\<rparr>"
    by (simp add: refreshToken_of_def lookup_update_other)
  from 1 2 3 show ?thesis by blast
qed

text \<open>
  Three different access tokens: the body's wins over the query's and the headers'. The
  refresh token is absent from the body and comes from the query, which wins over the
  headers. A token present in the headers alone is extracted from there, and a request
  without any token gives an empty value.
\<close>

theorem token_priority_witness:
  "find truthy (candidates three_tokens_req ''access_token'') = Some (JStr ''B'')
   \<and> accessToken_of three_tokens_req = Inr (JStr ''B'')
   \<and> find truthy (candidates three_tokens_req ''refresh_token'') = Some (JStr ''RQ'')
   \<and> refreshToken_of three_tokens_req = Inr (JStr ''RQ'')
   \<and> find truthy (candidates headers_only_req ''access_token'') = Some (JStr ''H'')
   \<and> accessToken_of headers_only_req = Inr (JStr ''H'')
   \<and> find truthy (candidates no_token_req ''access_token'') = None
   \<and> (\<exists>v. accessToken_of no_token_req = Inr v \<and> \<not> truthy v)"
proof -
  have a: "find truthy (candidates three_tokens_req ''access_token'') = Some (JStr ''B'')"
    by (simp add: candidates_def three_tokens_req_def field_of_def lookup_def)
  have r: "find truthy (candidates three_tokens_req ''refresh_token'') = Some (JStr ''RQ'')"
    by (simp add: candidates_def three_tokens_req_def field_of_def lookup_def)
  have h: "find truthy (candidates headers_only_req ''access_token'') = Some (JStr ''H'')"
    by (simp add: candidates_def headers_only_req_def field_of_def lookup_def)
  have n: "find truthy (candidates no_token_req ''access_token'') = None"
    by (simp add: candidates_def no_token_req_def field_of_def lookup_def)
  from token_priority [of three_tokens_req] token_priority [of headers_only_req]
    token_priority [of no_token_req] a r h n
  show ?thesis by simp
qed

section \<open>The profile's id\<close>

text \<open>
  C4. For every response that parses to a value with properties to read (anything but
  \<^verbatim>\<open>null\<close>), lib/Strategy.js produces a profile whose \<^verbatim>\<open>id\<close> is the response's
  \<^verbatim>\<open>user_id\<close>; the \<^verbatim>\<open>id\<close> of the parsed object kept in \<^verbatim>\<open>_json\<close> has been
  overwritten with \<^verbatim>\<open>user_id\<close> as well, so a native \<^verbatim>\<open>id\<close> appears in neither place.
\<close>

theorem id_from_user_id:
  assumes "json_parse E rbody = Inr json" and "json \<noteq> JNull" and "json \<noteq> JUndefined"
  shows "\<exists>profile. parse_profile E rbody = Inr profile
           \<and> get_prop profile ''id'' = get_prop json ''user_id''
           \<and> bind_res (get_prop profile ''_json'') (\<lambda>j. get_prop j ''id'') =
               get_prop json ''user_id''"
proof -
  from build_profile_value [OF assms(2,3), of rbody] obtain w where
    w: "w \<noteq> JNull" "w \<noteq> JUndefined"
       "field_of w ''id'' = field_of json ''user_id''"
       "build_profile rbody json = Inr (JObj
         [(''provider'', JStr ''amazon''),
          (''id'', field_of json ''user_id''),
          (''displayName'', field_of json ''name''),
          (''name'', JObj [(''familyName'', JStr ''''), (''givenName'', JStr '''')]),
          (''emails'', JArr [JObj [(''value'', field_of json ''email'')]] []),
          (''photos'', JArr [] []),
          (''_raw'', rbody),
          (''_json'', w)])"
    by blast
  show ?thesis
    unfolding parse_profile_def
    using w assms
    by (simp add: get_prop_field lookup_def)
qed

text \<open>A response with the native \<^verbatim>\<open>id\<close> "native" and the \<^verbatim>\<open>user_id\<close> "123".\<close>

theorem id_from_user_id_witness:
  "json_parse both_env both_body = Inr both_json
   \<and> get_prop both_json ''id'' = Inr (JStr ''native'')
   \<and> (\<exists>profile. parse_profile both_env both_body = Inr profile
           \<and> get_prop profile ''id'' = Inr (JStr ''123'')
           \<and> bind_res (get_prop profile ''_json'') (\<lambda>j. get_prop j ''id'') =
               Inr (JStr ''123''))"
proof -
  have p: "json_parse both_env both_body = Inr both_json"
    by (simp add: both_env_def answering_def parses_to_def)
  have n: "both_json \<noteq> JNull" "both_json \<noteq> JUndefined"
    by (simp_all add: both_json_def)
  have u: "get_prop both_json ''user_id'' = Inr (JStr ''123'')"
    by (simp add: both_json_def lookup_def)
  have i: "get_prop both_json ''id'' = Inr (JStr ''native'')"
    by (simp add: both_json_def lookup_def)
  from id_from_user_id [OF p n] p i show ?thesis
    unfolding u by simp
qed

section \<open>Classification of a failed fetch\<close>

text \<open>
  C5, as the code has it. When the GET of lib/Strategy.js reports a transport error, the
  attempt ends through \<^verbatim>\<open>error\<close>, in one of two tiers. If the error's payload
  (\<^verbatim>\<open>error.data\<close>) parses as JSON to a value other than \<^verbatim>\<open>null\<close>, the error
  reported is an \<^verbatim>\<open>InternalOAuthError\<close> that carries the parsed value's
  \<^verbatim>\<open>error_description\<close> and \<^verbatim>\<open>error\<close>. If the payload does not parse, or parses
  to \<^verbatim>\<open>null\<close>, the error reported is the generic
  \<^verbatim>\<open>InternalOAuthError('Failed to fetch user profile', error)\<close> wrapping the transport
  error, never the exception of the parser. In both tiers the verify callback is not applied.
\<close>

theorem transport_failure_classified:
  assumes "accessToken_of req = Inr t" and "truthy t"
    and "oauth2_get E (profileURL self) t = (error, rbody)" and "truthy error"
  shows "(\<forall>j. json_parse E (field_of error ''data'') = Inr j \<and> j \<noteq> JNull \<and> j \<noteq> JUndefined \<longrightarrow>
            authenticate E self req =
              ([OAuth2Get (profileURL self) t,
                Error (InternalOAuthError (field_of j ''error_description'')
                         (field_of j ''error''))],
               None))
       \<and> ((\<exists>x. json_parse E (field_of error ''data'') = Inl x)
            \<or> json_parse E (field_of error ''data'') = Inr JNull
            \<or> json_parse E (field_of error ''data'') = Inr JUndefined \<longrightarrow>
            authenticate E self req =
              ([OAuth2Get (profileURL self) t,
                Error (InternalOAuthError (JStr ''Failed to fetch user profile'') error)],
               None))"
proof -
  from authenticate_with_token [OF assms(1,2), of "userProfile E self" self]
  obtain r where "authenticate E self req = userProfile E self t (loaded self req t r)"
    by (auto simp: authenticate_def)
  then show ?thesis
    by (auto simp: userProfile_failure [OF assms(3,4)])
qed

text \<open>
  The specification's structured payload
  \<^verbatim>\<open>{"error": "invalid_token", "error_description": "token expired"}\<close>, whose two fields
  reach \<^verbatim>\<open>error\<close>, and the payload \<^verbatim>\<open>Bad Gateway\<close>, which is not JSON and gives the
  generic error.
\<close>

theorem transport_failure_classified_witness:
  "accessToken_of three_tokens_req = Inr (JStr ''B'') \<and> truthy (JStr ''B'')
   \<and> oauth2_get expired_env (profileURL (strategy_of accepting)) (JStr ''B'') =
        (expired_error, expired_payload)
   \<and> truthy expired_error
   \<and> json_parse expired_env (field_of expired_error ''data'') = Inr expired_json
   \<and> authenticate expired_env (strategy_of accepting) three_tokens_req =
        ([OAuth2Get amazon_url (JStr ''B''),
          Error (InternalOAuthError (JStr ''token expired'') (JStr ''invalid_token''))], None)
   \<and> json_parse gateway_env (field_of gateway_error ''data'') = Inl SyntaxError
   \<and> authenticate gateway_env (strategy_of accepting) three_tokens_req =
        ([OAuth2Get amazon_url (JStr ''B''),
          Error (InternalOAuthError (JStr ''Failed to fetch user profile'') gateway_error)],
         None)"
proof -
  have t: "accessToken_of three_tokens_req = Inr (JStr ''B'')" "truthy (JStr ''B'')"
    by (simp_all add: accessToken_of_def three_tokens_req_def lookup_def)
  have u: "profileURL (strategy_of accepting) = amazon_url"
    by (simp add: strategy_of_def)
  have g1: "oauth2_get expired_env (profileURL (strategy_of accepting)) (JStr ''B'') =
        (expired_error, expired_payload)"
    by (simp add: expired_env_def answering_def)
  have e1: "truthy expired_error"
    by (simp add: expired_error_def)
  have p1: "json_parse expired_env (field_of expired_error ''data'') = Inr expired_json"
    by (simp add: expired_env_def answering_def parses_to_def expired_error_def field_of_def
          lookup_def)
  have j1: "expired_json \<noteq> JNull" "expired_json \<noteq> JUndefined"
    "field_of expired_json ''error_description'' = JStr ''token expired''"
    "field_of expired_json ''error'' = JStr ''invalid_token''"
    by (simp_all add: expired_json_def field_of_def lookup_def)
  have g2: "oauth2_get gateway_env (profileURL (strategy_of accepting)) (JStr ''B'') =
        (gateway_error, JStr ''Bad Gateway'')"
    by (simp add: gateway_env_def answering_def)
  have e2: "truthy gateway_error"
    by (simp add: gateway_error_def)
  have p2: "json_parse gateway_env (field_of gateway_error ''data'') = Inl SyntaxError"
    by (simp add: gateway_env_def answering_def parses_to_def gateway_error_def field_of_def
          lookup_def)
  from transport_failure_classified [OF t g1 e1] p1 j1 u
  have r1: "authenticate expired_env (strategy_of accepting) three_tokens_req =
        ([OAuth2Get amazon_url (JStr ''B''),
          Error (InternalOAuthError (JStr ''token expired'') (JStr ''invalid_token''))], None)"
    by simp
  from transport_failure_classified [OF t g2 e2] p2 u
  have r2: "authenticate gateway_env (strategy_of accepting) three_tokens_req =
        ([OAuth2Get amazon_url (JStr ''B''),
          Error (InternalOAuthError (JStr ''Failed to fetch user profile'') gateway_error)],
         None)"
    by simp
  from t g1 e1 p1 r1 p2 r2 show ?thesis by simp
qed

text \<open>
  C5 as stated fails on the payload \<^verbatim>\<open>null\<close>: it parses as JSON, and the error reported
  is nevertheless the generic one, because reading \<^verbatim>\<open>error_description\<close> of
  \<^verbatim>\<open>null\<close> throws inside the same \<^verbatim>\<open>try\<close> block.
\<close>

theorem null_payload_counterexample:
  "json_parse null_env (field_of null_error ''data'') = Inr JNull
   \<and> authenticate null_env (strategy_of accepting) three_tokens_req =
        ([OAuth2Get amazon_url (JStr ''B''),
          Error (InternalOAuthError (JStr ''Failed to fetch user profile'') null_error)], None)"
  by (simp add: run_defs input_defs null_env_def null_error_def field_of_def)

section \<open>The continuation of the verify callback\<close>

text \<open>
  C6. An invocation \<^verbatim>\<open>verified(error, user, info)\<close> reports \<^verbatim>\<open>error(error)\<close> when
  \<^verbatim>\<open>error\<close> is truthy, otherwise \<^verbatim>\<open>fail(info)\<close> when \<^verbatim>\<open>user\<close> is falsy, otherwise
  \<^verbatim>\<open>success(user, info)\<close>. Seen from \<^verbatim>\<open>authenticate\<close>: once the token is there, the
  fetch has succeeded and the profile is built, the run is the GET, the application of the
  verify callback, and exactly this report for each invocation of the continuation that the
  callback makes, in order.
\<close>

theorem verified_reports:
  "(truthy error \<longrightarrow> verified error user info = Error error)
   \<and> (\<not> truthy error \<and> \<not> truthy user \<longrightarrow> verified error user info = Fail info)
   \<and> (\<not> truthy error \<and> truthy user \<longrightarrow> verified error user info = Success user info)
   \<and> (accessToken_of req = Inr t \<and> truthy t \<and> refreshToken_of req = Inr r
        \<and> oauth2_get E (profileURL self) t = (e, rbody) \<and> \<not> truthy e
        \<and> parse_profile E rbody = Inr profile
        \<and> args = (if truthy (passReqToCallback self) then WithReq req t r profile
                   else WithoutReq t r profile)
        \<and> thrown (verify self args) = None \<longrightarrow>
      authenticate E self req =
        (OAuth2Get (profileURL self) t # Verify args #
         map (\<lambda>(e, u, i). if truthy e then Error e else if truthy u then Success u i else Fail i)
           (calls (verify self args)),
         None))"
proof -
  have v: "(\<lambda>(e, u, i). verified e u i) =
      (\<lambda>(e, u, i). if truthy e then Error e else if truthy u then Success u i else Fail i)"
    by (auto simp: verified_def fun_eq_iff)
  show ?thesis
    using authenticate_verified_run [of req t r E self e rbody profile args]
    unfolding v
    by (auto simp: verified_def)
qed

text \<open>
  The specification's two examples: a verify callback that answers
  \<^verbatim>\<open>(null, false, {message: "rejected"})\<close> makes \<^verbatim>\<open>authenticate\<close> invoke
  \<^verbatim>\<open>fail({message: "rejected"})\<close>, and one that answers
  \<^verbatim>\<open>(null, {id: 1}, {scope: "all"})\<close> makes it invoke
  \<^verbatim>\<open>success({id: 1}, {scope: "all"})\<close>; and an error given to the continuation.
\<close>

theorem verified_reports_witness:
  "verified JNull (JBool False) (JObj [(''message'', JStr ''rejected'')]) =
     Fail (JObj [(''message'', JStr ''rejected'')])
   \<and> verified JNull (JObj [(''id'', JNum 1)]) (JObj [(''scope'', JStr ''all'')]) =
     Success (JObj [(''id'', JNum 1)]) (JObj [(''scope'', JStr ''all'')])
   \<and> verified (JStr ''db down'') (JObj [(''id'', JNum 1)]) JUndefined = Error (JStr ''db down'')
   \<and> authenticate jane_env (strategy_of rejecting) three_tokens_req =
       ([OAuth2Get amazon_url (JStr ''B''),
         Verify (WithoutReq (JStr ''B'') (JStr ''RQ'') jane_profile),
         Fail (JObj [(''message'', JStr ''rejected'')])], None)
   \<and> authenticate jane_env (strategy_of accepting) three_tokens_req =
       ([OAuth2Get amazon_url (JStr ''B''),
         Verify (WithoutReq (JStr ''B'') (JStr ''RQ'') jane_profile),
         Success (JObj [(''id'', JNum 1)]) (JObj [(''scope'', JStr ''all'')])], None)"
proof -
  have t: "accessToken_of three_tokens_req = Inr (JStr ''B'')" "truthy (JStr ''B'')"
    "refreshToken_of three_tokens_req = Inr (JStr ''RQ'')"
    by (simp_all add: accessToken_of_def refreshToken_of_def three_tokens_req_def lookup_def)
  have g: "oauth2_get jane_env amazon_url (JStr ''B'') = (JNull, jane_body)" "\<not> truthy JNull"
    by (simp_all add: jane_env_def answering_def)
  have p: "parse_profile jane_env jane_body = Inr jane_profile"
    by (simp add: parse_profile_def build_profile_def jane_env_def answering_def parses_to_def
          jane_json_def jane_profile_def lookup_def)
  have s: "profileURL (strategy_of rejecting) = amazon_url"
    "profileURL (strategy_of accepting) = amazon_url"
    "\<not> truthy (passReqToCallback (strategy_of rejecting))"
    "\<not> truthy (passReqToCallback (strategy_of accepting))"
    "verify (strategy_of rejecting) = rejecting" "verify (strategy_of accepting) = accepting"
    by (simp_all add: strategy_of_def)
  from s t g p
    verified_reports [of JNull "JBool False" "JObj [(''message'', JStr ''rejected'')]"
      three_tokens_req "JStr ''B''" "JStr ''RQ''" jane_env "strategy_of rejecting" JNull
      jane_body jane_profile "WithoutReq (JStr ''B'') (JStr ''RQ'') jane_profile"]
  have r: "verified JNull (JBool False) (JObj [(''message'', JStr ''rejected'')]) =
     Fail (JObj [(''message'', JStr ''rejected'')])
   \<and> authenticate jane_env (strategy_of rejecting) three_tokens_req =
       ([OAuth2Get amazon_url (JStr ''B''),
         Verify (WithoutReq (JStr ''B'') (JStr ''RQ'') jane_profile),
         Fail (JObj [(''message'', JStr ''rejected'')])], None)"
    by (simp add: rejecting_def)
  from s t g p
    verified_reports [of JNull "JObj [(''id'', JNum 1)]" "JObj [(''scope'', JStr ''all'')]"
      three_tokens_req "JStr ''B''" "JStr ''RQ''" jane_env "strategy_of accepting" JNull
      jane_body jane_profile "WithoutReq (JStr ''B'') (JStr ''RQ'') jane_profile"]
  have a: "verified JNull (JObj [(''id'', JNum 1)]) (JObj [(''scope'', JStr ''all'')]) =
     Success (JObj [(''id'', JNum 1)]) (JObj [(''scope'', JStr ''all'')])
   \<and> authenticate jane_env (strategy_of accepting) three_tokens_req =
       ([OAuth2Get amazon_url (JStr ''B''),
         Verify (WithoutReq (JStr ''B'') (JStr ''RQ'') jane_profile),
         Success (JObj [(''id'', JNum 1)]) (JObj [(''scope'', JStr ''all'')])], None)"
    by (simp add: accepting_def)
  from verified_reports [of "JStr ''db down''" "JObj [(''id'', JNum 1)]" JUndefined]
  have e: "verified (JStr ''db down'') (JObj [(''id'', JNum 1)]) JUndefined =
     Error (JStr ''db down'')"
    by simp
  from r a e show ?thesis by simp
qed

section \<open>The specification's example profile\<close>

text \<open>
  C7. For the response body
  \<^verbatim>\<open>{"user_id": "123", "name": "Jane Doe", "email": "jane@example.com"}\<close>, parsed to the
  object it denotes, lib/Strategy.js produces exactly the profile with provider "amazon",
  id "123", displayName "Jane Doe", empty family and given names, the one email
  "jane@example.com", no photos, the body as \<^verbatim>\<open>_raw\<close> and the parsed object as
  \<^verbatim>\<open>_json\<close> (which by then has the \<^verbatim>\<open>id\<close> "123" written into it).
\<close>

theorem jane_profile_exact:
  assumes "json_parse E jane_body =
     Inr (JObj [(''user_id'', JStr ''123''), (''name'', JStr ''Jane Doe''),
                (''email'', JStr ''jane@example.com'')])"
  shows "parse_profile E jane_body = Inr (JObj
     [(''provider'', JStr ''amazon''),
      (''id'', JStr ''123''),
      (''displayName'', JStr ''Jane Doe''),
      (''name'', JObj [(''familyName'', JStr ''''), (''givenName'', JStr '''')]),
      (''emails'', JArr [JObj [(''value'', JStr ''jane@example.com'')]] []),
      (''photos'', JArr [] []),
      (''_raw'', jane_body),
      (''_json'', JObj [(''user_id'', JStr ''123''), (''name'', JStr ''Jane Doe''),
                        (''email'', JStr ''jane@example.com''), (''id'', JStr ''123'')])])"
  unfolding parse_profile_def build_profile_def
  using assms by (simp add: lookup_def)

text \<open>The same through a whole attempt: the verify callback is given this profile.\<close>

theorem jane_profile_exact_witness:
  "json_parse jane_env jane_body =
     Inr (JObj [(''user_id'', JStr ''123''), (''name'', JStr ''Jane Doe''),
                (''email'', JStr ''jane@example.com'')])
   \<and> parse_profile jane_env jane_body = Inr jane_profile
   \<and> authenticate jane_env (strategy_of accepting) three_tokens_req =
       ([OAuth2Get amazon_url (JStr ''B''),
         Verify (WithoutReq (JStr ''B'') (JStr ''RQ'') jane_profile),
         Success (JObj [(''id'', JNum 1)]) (JObj [(''scope'', JStr ''all'')])], None)"
proof -
  have p: "json_parse jane_env jane_body =
     Inr (JObj [(''user_id'', JStr ''123''), (''name'', JStr ''Jane Doe''),
                (''email'', JStr ''jane@example.com'')])"
    by (simp add: jane_env_def answering_def parses_to_def jane_json_def)
  have a: "authenticate jane_env (strategy_of accepting) three_tokens_req =
       ([OAuth2Get amazon_url (JStr ''B''),
         Verify (WithoutReq (JStr ''B'') (JStr ''RQ'') jane_profile),
         Success (JObj [(''id'', JNum 1)]) (JObj [(''scope'', JStr ''all'')])], None)"
    by (simp add: run_defs input_defs jane_env_def jane_json_def jane_profile_def)
  from jane_profile_exact [OF p] p a show ?thesis
    by (simp add: jane_profile_def)
qed

section \<open>Absent fields\<close>

text \<open>
  C8, as the code has it. For every response that parses to a value other than
  \<^verbatim>\<open>null\<close>: lib/Strategy.js gives a profile whose \<^verbatim>\<open>photos\<close> is always the empty
  collection and whose family and given names are always the empty string, whose
  \<^verbatim>\<open>emails\<close> is always the one-element collection holding the response's \<^verbatim>\<open>email\<close>
  (\<^verbatim>\<open>undefined\<close> when absent) and whose \<^verbatim>\<open>displayName\<close> is the response's
  \<^verbatim>\<open>name\<close> (\<^verbatim>\<open>undefined\<close> when absent). part\_000 gives a profile whose
  \<^verbatim>\<open>emails\<close> is the empty collection when the response has none, whose \<^verbatim>\<open>photos\<close>
  is the one-element collection holding the empty string when the response has no image, and
  whose \<^verbatim>\<open>displayName\<close>, family and given names are the empty string when the response
  has no \<^verbatim>\<open>displayName\<close>, respectively no \<^verbatim>\<open>name\<close>.
\<close>

theorem absent_fields_profile:
  assumes "json \<noteq> JNull" and "json \<noteq> JUndefined"
  shows "(\<exists>p. build_profile rbody json = Inr p
            \<and> get_prop p ''photos'' = Inr (JArr [] [])
            \<and> get_prop p ''name'' =
                Inr (JObj [(''familyName'', JStr ''''), (''givenName'', JStr '''')])
            \<and> get_prop p ''emails'' = Inr (JArr [JObj [(''value'', field_of json ''email'')]] [])
            \<and> get_prop p ''displayName'' = Inr (field_of json ''name''))
       \<and> (\<exists>q. build_profile_000 rbody json = Inr q
            \<and> (\<not> truthy (field_of json ''emails'') \<longrightarrow> get_prop q ''emails'' = Inr (JArr [] []))
            \<and> (\<not> truthy (field_of json ''image'') \<longrightarrow>
                  get_prop q ''photos'' = Inr (JArr [JObj [(''value'', JStr '''')]] []))
            \<and> (\<not> truthy (field_of json ''displayName'') \<longrightarrow>
                  get_prop q ''displayName'' = Inr (JStr ''''))
            \<and> (\<not> truthy (field_of json ''name'') \<longrightarrow>
                  get_prop q ''name'' =
                    Inr (JObj [(''familyName'', JStr ''''), (''givenName'', JStr '''')])))"
proof -
  from build_profile_value [OF assms, of rbody] have 1:
    "\<exists>p. build_profile rbody json = Inr p
            \<and> get_prop p ''photos'' = Inr (JArr [] [])
            \<and> get_prop p ''name'' =
                Inr (JObj [(''familyName'', JStr ''''), (''givenName'', JStr '''')])
            \<and> get_prop p ''emails'' = Inr (JArr [JObj [(''value'', field_of json ''email'')]] [])
            \<and> get_prop p ''displayName'' = Inr (field_of json ''name'')"
    by (auto simp: lookup_def)
  have 2: "\<exists>q. build_profile_000 rbody json = Inr q
            \<and> (\<not> truthy (field_of json ''emails'') \<longrightarrow> get_prop q ''emails'' = Inr (JArr [] []))
            \<and> (\<not> truthy (field_of json ''image'') \<longrightarrow>
                  get_prop q ''photos'' = Inr (JArr [JObj [(''value'', JStr '''')]] []))
            \<and> (\<not> truthy (field_of json ''displayName'') \<longrightarrow>
                  get_prop q ''displayName'' = Inr (JStr ''''))
            \<and> (\<not> truthy (field_of json ''name'') \<longrightarrow>
                  get_prop q ''name'' =
                    Inr (JObj [(''familyName'', JStr ''''), (''givenName'', JStr '''')]))"
    by (simp add: build_profile_000_value [OF assms] lookup_def or_default_def field_of_falsy)
  from 1 2 show ?thesis by blast
qed

text \<open>The response \<^verbatim>\<open>{"user_id": "123"}\<close>, which has none of the optional fields.\<close>

theorem absent_fields_profile_witness:
  "bare_json \<noteq> JNull \<and> bare_json \<noteq> JUndefined
   \<and> field_of bare_json ''email'' = JUndefined \<and> field_of bare_json ''name'' = JUndefined
   \<and> \<not> truthy (field_of bare_json ''emails'') \<and> \<not> truthy (field_of bare_json ''image'')
   \<and> \<not> truthy (field_of bare_json ''displayName'')
   \<and> (\<exists>p. build_profile bare_body bare_json = Inr p
            \<and> get_prop p ''photos'' = Inr (JArr [] [])
            \<and> get_prop p ''emails'' = Inr (JArr [JObj [(''value'', JUndefined)]] [])
            \<and> get_prop p ''displayName'' = Inr JUndefined)
   \<and> (\<exists>q. build_profile_000 bare_body bare_json = Inr q
            \<and> get_prop q ''emails'' = Inr (JArr [] [])
            \<and> get_prop q ''photos'' = Inr (JArr [JObj [(''value'', JStr '''')]] [])
            \<and> get_prop q ''displayName'' = Inr (JStr '''')
            \<and> get_prop q ''name'' =
                 Inr (JObj [(''familyName'', JStr ''''), (''givenName'', JStr '''')]))"
proof -
  have n: "bare_json \<noteq> JNull" "bare_json \<noteq> JUndefined"
    by (simp_all add: bare_json_def)
  have f: "field_of bare_json ''email'' = JUndefined" "field_of bare_json ''name'' = JUndefined"
    "field_of bare_json ''emails'' = JUndefined" "field_of bare_json ''image'' = JUndefined"
    "field_of bare_json ''displayName'' = JUndefined"
    by (simp_all add: bare_json_def field_of_def lookup_def)
  from absent_fields_profile [OF n, of bare_body] n show ?thesis
    unfolding f by auto
qed

text \<open>
  C8 as stated fails on that response. In lib/Strategy.js the email is absent and
  \<^verbatim>\<open>emails\<close> is not empty but holds an entry whose value is \<^verbatim>\<open>undefined\<close>, and
  \<^verbatim>\<open>displayName\<close> is \<^verbatim>\<open>undefined\<close>; in part\_000 the image is absent and
  \<^verbatim>\<open>photos\<close> is not empty but holds an entry with the empty string, and \<^verbatim>\<open>id\<close> is
  \<^verbatim>\<open>undefined\<close>.
\<close>

theorem absent_email_counterexample:
  "field_of bare_json ''email'' = JUndefined
   \<and> profile_field (build_profile bare_body bare_json) ''emails'' =
        Inr (JArr [JObj [(''value'', JUndefined)]] [])
   \<and> profile_field (build_profile bare_body bare_json) ''emails'' \<noteq> Inr (JArr [] [])
   \<and> profile_field (build_profile bare_body bare_json) ''displayName'' = Inr JUndefined
   \<and> field_of bare_json ''image'' = JUndefined
   \<and> profile_field (build_profile_000 bare_body bare_json) ''photos'' =
        Inr (JArr [JObj [(''value'', JStr '''')]] [])
   \<and> profile_field (build_profile_000 bare_body bare_json) ''photos'' \<noteq> Inr (JArr [] [])
   \<and> profile_field (build_profile_000 bare_body bare_json) ''id'' = Inr JUndefined"
  by (simp add: build_profile_def build_profile_000_def bare_json_def profile_field_def
        field_of_def lookup_def)

section \<open>The two versions of the profile\<close>

text \<open>
  C9. The two versions of \<^verbatim>\<open>userProfile\<close> are not extensionally equal. On a parsed
  response that has the fields of both schemas they produce different profiles, which
  differ in every derived field: \<^verbatim>\<open>id\<close> comes from \<^verbatim>\<open>user_id\<close> in lib/Strategy.js
  and from \<^verbatim>\<open>id\<close> in part\_000, \<^verbatim>\<open>displayName\<close> from \<^verbatim>\<open>name\<close> and from
  \<^verbatim>\<open>displayName\<close>, the family and given names are empty in the one and read from
  \<^verbatim>\<open>name\<close> in the other, \<^verbatim>\<open>emails\<close> is built from \<^verbatim>\<open>email\<close> and copied from
  \<^verbatim>\<open>emails\<close>, \<^verbatim>\<open>photos\<close> is empty and built from \<^verbatim>\<open>image.url\<close>. They differ on
  the specification's example response as well, and the difference shows in what
  \<^verbatim>\<open>authenticate\<close> hands to the verify callback.
\<close>

theorem versions_differ:
  "build_profile rbody both_json \<noteq> build_profile_000 rbody both_json
   \<and> profile_field (build_profile rbody both_json) ''id'' = Inr (JStr ''123'')
   \<and> profile_field (build_profile_000 rbody both_json) ''id'' = Inr (JStr ''native'')
   \<and> profile_field (build_profile rbody both_json) ''displayName'' =
        Inr (JObj [(''familyName'', JStr ''Doe''), (''givenName'', JStr ''Jane'')])
   \<and> profile_field (build_profile_000 rbody both_json) ''displayName'' = Inr (JStr ''J. Doe'')
   \<and> profile_field (build_profile rbody both_json) ''name'' =
        Inr (JObj [(''familyName'', JStr ''''), (''givenName'', JStr '''')])
   \<and> profile_field (build_profile_000 rbody both_json) ''name'' =
        Inr (JObj [(''familyName'', JStr ''Doe''), (''givenName'', JStr ''Jane'')])
   \<and> profile_field (build_profile rbody both_json) ''emails'' =
        Inr (JArr [JObj [(''value'', JStr ''jane@example.com'')]] [])
   \<and> profile_field (build_profile_000 rbody both_json) ''emails'' =
        Inr (JArr [JObj [(''value'', JStr ''jane@legacy.example'')]] [])
   \<and> profile_field (build_profile rbody both_json) ''photos'' = Inr (JArr [] [])
   \<and> profile_field (build_profile_000 rbody both_json) ''photos'' =
        Inr (JArr [JObj [(''value'', JStr ''http://img.example/jane.png'')]] [])
   \<and> build_profile rbody jane_json \<noteq> build_profile_000 rbody jane_json
   \<and> parse_profile both_env both_body \<noteq> parse_profile_000 both_env both_body
   \<and> authenticate both_env (strategy_of accepting) three_tokens_req \<noteq>
       authenticate_000 both_env (strategy_of accepting) three_tokens_req"
proof -
  have 1: "authenticate both_env (strategy_of accepting) three_tokens_req \<noteq>
       authenticate_000 both_env (strategy_of accepting) three_tokens_req"
    by (simp add: run_defs input_defs both_env_def both_json_def)
  show ?thesis
    using 1
    by (simp add: build_profile_def build_profile_000_def both_json_def jane_json_def
        profile_field_def lookup_def parse_profile_def parse_profile_000_def both_env_def
        answering_def parses_to_def)
qed

section \<open>The id without user\_id\<close>

text \<open>
  C10. The overwrite of \<^verbatim>\<open>id\<close> in lib/Strategy.js is unconditional: for every response
  that parses to a value other than \<^verbatim>\<open>null\<close> and has no \<^verbatim>\<open>user_id\<close>, the profile's
  \<^verbatim>\<open>id\<close> is \<^verbatim>\<open>undefined\<close>, and so is the \<^verbatim>\<open>id\<close> of the parsed object kept in
  \<^verbatim>\<open>_json\<close>, whatever native \<^verbatim>\<open>id\<close> the response had.
\<close>

theorem id_undefined_without_user_id:
  assumes "json_parse E rbody = Inr json" and "json \<noteq> JNull" and "json \<noteq> JUndefined"
    and "field_of json ''user_id'' = JUndefined"
  shows "\<exists>profile. parse_profile E rbody = Inr profile
           \<and> get_prop profile ''id'' = Inr JUndefined
           \<and> bind_res (get_prop profile ''_json'') (\<lambda>j. get_prop j ''id'') = Inr JUndefined"
proof -
  from build_profile_value [OF assms(2,3), of rbody] obtain w where
    w: "w \<noteq> JNull" "w \<noteq> JUndefined"
       "field_of w ''id'' = field_of json ''user_id''"
       "build_profile rbody json = Inr (JObj
         [(''provider'', JStr ''amazon''),
          (''id'', field_of json ''user_id''),
          (''displayName'', field_of json ''name''),
          (''name'', JObj [(''familyName'', JStr ''''), (''givenName'', JStr '''')]),
          (''emails'', JArr [JObj [(''value'', field_of json ''email'')]] []),
          (''photos'', JArr [] []),
          (''_raw'', rbody),
          (''_json'', w)])"
    by blast
  show ?thesis
    unfolding parse_profile_def
    using w assms
    by (simp add: get_prop_field lookup_def)
qed

text \<open>A response with the native \<^verbatim>\<open>id\<close> "native" and no \<^verbatim>\<open>user_id\<close>.\<close>

theorem id_undefined_without_user_id_witness:
  "json_parse native_env native_body = Inr native_json
   \<and> get_prop native_json ''id'' = Inr (JStr ''native'')
   \<and> field_of native_json ''user_id'' = JUndefined
   \<and> (\<exists>profile. parse_profile native_env native_body = Inr profile
           \<and> get_prop profile ''id'' = Inr JUndefined
           \<and> bind_res (get_prop profile ''_json'') (\<lambda>j. get_prop j ''id'') = Inr JUndefined)"
proof -
  have p: "json_parse native_env native_body = Inr native_json"
    by (simp add: native_env_def answering_def parses_to_def)
  have n: "native_json \<noteq> JNull" "native_json \<noteq> JUndefined"
    by (simp_all add: native_json_def)
  have u: "field_of native_json ''user_id'' = JUndefined"
    by (simp add: native_json_def field_of_def lookup_def)
  have i: "get_prop native_json ''id'' = Inr (JStr ''native'')"
    by (simp add: native_json_def lookup_def)
  from id_undefined_without_user_id [OF p n u] p u i show ?thesis by simp
qed

end
